theory Spec2Isabelle
  imports Main
begin

section \<open>The elapsed-time Timer of static/js/timer.js\<close>

text \<open>
  The class \<open>Timer\<close> keeps five mutable fields and talks to three collaborators: the
  wall clock (\<open>Date.now()\<close>), the browser's interval scheduler
  (\<open>setInterval\<close>/\<open>clearInterval\<close>) and the key-value store behind
  \<open>ProductivityTracker.LocalStorage\<close>. The fields are a record, the collaborators are
  an explicit environment that every method takes and returns, and each reading of
  \<open>Date.now()\<close> is a parameter of the method that makes it, in the order of the calls.

  Numbers are \<open>int\<close>: every time value is an integral count of milliseconds, and the
  range in which a JavaScript number stops being exact (beyond \<open>2^53\<close>) is not modelled.
  A \<open>null\<close> field is \<open>None\<close>.
\<close>

subsection \<open>Data\<close>

type_synonym taskid = string

record timer =
  startTime :: "int option"
  elapsedTime :: int
  isRunning :: bool
  interval :: "nat option"
  taskId :: "taskid option"

text \<open>The object literal that \<open>saveState\<close> writes under the key \<open>timerState\<close>.\<close>

record snapshot =
  snap_startTime :: "int option"
  snap_elapsedTime :: int
  snap_isRunning :: bool
  snap_taskId :: "taskid option"
  snap_timestamp :: int

text \<open>
  The text held under the key is either the JSON of a snapshot or something on which
  \<open>JSON.parse\<close> throws. \<open>throws\<close> says that every access to \<open>localStorage\<close> raises
  (storage disabled or unavailable).
\<close>

datatype stored = Unparsable | Json snapshot

record localStorage =
  throws :: bool
  item :: "stored option"

text \<open>
  The callbacks \<open>onTick\<close>, \<open>onStart\<close>, \<open>onStop\<close>, \<open>onPause\<close> are supplied by the
  caller; the model records every invocation with its arguments, in order.
\<close>

datatype notification =
    OnTick int
  | OnStart "taskid option"
  | OnStop "taskid option" int
  | OnPause "taskid option" int

record env =
  storage :: localStorage
  scheduled :: "nat list"
  next_handle :: nat
  notified :: "notification list"

subsection \<open>The collaborators\<close>

text \<open>\<open>LocalStorage.set\<close>, \<open>get\<close> and \<open>remove\<close>: each catches whatever is thrown.\<close>

definition LocalStorage_set :: "snapshot \<Rightarrow> localStorage \<Rightarrow> localStorage" where
  "LocalStorage_set v ls = (if throws ls then ls else ls\<lparr>item := Some (Json v)\<rparr>)"

definition LocalStorage_get :: "localStorage \<Rightarrow> snapshot option" where
  "LocalStorage_get ls =
     (if throws ls then None
      else case item ls of
             None \<Rightarrow> None
           | Some Unparsable \<Rightarrow> None
           | Some (Json v) \<Rightarrow> Some v)"

definition LocalStorage_remove :: "localStorage \<Rightarrow> localStorage" where
  "LocalStorage_remove ls = (if throws ls then ls else ls\<lparr>item := None\<rparr>)"

text \<open>
  \<open>setInterval\<close> hands out a fresh handle and schedules the callback;
  \<open>clearInterval\<close> unschedules a handle and ignores \<open>null\<close>.
\<close>

definition setInterval :: "env \<Rightarrow> nat \<times> env" where
  "setInterval e =
     (next_handle e,
      e\<lparr>scheduled := next_handle e # scheduled e, next_handle := Suc (next_handle e)\<rparr>)"

definition clearInterval :: "nat option \<Rightarrow> env \<Rightarrow> env" where
  "clearInterval h e =
     (case h of None \<Rightarrow> e | Some k \<Rightarrow> e\<lparr>scheduled := removeAll k (scheduled e)\<rparr>)"

definition notify :: "notification \<Rightarrow> env \<Rightarrow> env" where
  "notify n e = e\<lparr>notified := notified e @ [n]\<rparr>"

text \<open>JavaScript coercions: \<open>null\<close> is \<open>0\<close> in a subtraction; \<open>null\<close> and \<open>0\<close> are falsy.\<close>

definition to_number :: "int option \<Rightarrow> int" where
  "to_number v = (case v of None \<Rightarrow> 0 | Some n \<Rightarrow> n)"

definition truthy_int :: "int option \<Rightarrow> bool" where
  "truthy_int v = (case v of None \<Rightarrow> False | Some n \<Rightarrow> n \<noteq> 0)"

definition truthy_handle :: "nat option \<Rightarrow> bool" where
  "truthy_handle v = (case v of None \<Rightarrow> False | Some n \<Rightarrow> n \<noteq> 0)"

subsection \<open>The methods of Timer\<close>

definition saveState :: "int \<Rightarrow> timer \<Rightarrow> env \<Rightarrow> env" where
  "saveState ts t e =
     e\<lparr>storage := LocalStorage_set
         \<lparr>snap_startTime = startTime t, snap_elapsedTime = elapsedTime t,
          snap_isRunning = isRunning t, snap_taskId = taskId t, snap_timestamp = ts\<rparr>
         (storage e)\<rparr>"

definition clearState :: "env \<Rightarrow> env" where
  "clearState e = e\<lparr>storage := LocalStorage_remove (storage e)\<rparr>"

text \<open>
  The arrow function given to \<open>setInterval\<close> in \<open>start\<close> and in \<open>resumeTimer\<close>
  (the two are the same text): \<open>now\<close> is its \<open>Date.now()\<close>, \<open>ts\<close> the one of
  \<open>saveState\<close>.
\<close>

definition tick :: "int \<Rightarrow> int \<Rightarrow> timer \<times> env \<Rightarrow> timer \<times> env" where
  "tick now ts s =
     (let t = (fst s)\<lparr>elapsedTime := now - to_number (startTime (fst s))\<rparr>;
          e = notify (OnTick (elapsedTime t)) (snd s)
      in (t, saveState ts t e))"

definition start :: "taskid option \<Rightarrow> int \<Rightarrow> int \<Rightarrow> timer \<times> env \<Rightarrow> bool \<times> timer \<times> env" where
  "start tid now ts s =
     (if isRunning (fst s) then (False, s)
      else
        let t1 = (fst s)\<lparr>taskId := tid, startTime := Some (now - elapsedTime (fst s)),
                         isRunning := True\<rparr>;
            (h, e1) = setInterval (snd s);
            t2 = t1\<lparr>interval := Some h\<rparr>;
            e2 = notify (OnStart (taskId t2)) e1
        in (True, t2, saveState ts t2 e2))"

definition reset :: "timer \<times> env \<Rightarrow> timer \<times> env" where
  "reset s =
     (let t1 = (fst s)\<lparr>isRunning := False, elapsedTime := 0, startTime := None,
                       taskId := None\<rparr>;
          (t2, e2) = (if truthy_handle (interval t1)
                      then (t1\<lparr>interval := None\<rparr>, clearInterval (interval t1) (snd s))
                      else (t1, snd s))
      in (t2, clearState (notify (OnTick 0) e2)))"

definition stop :: "timer \<times> env \<Rightarrow> bool \<times> timer \<times> env" where
  "stop s =
     (if \<not> isRunning (fst s) then (False, s)
      else
        let e1 = clearInterval (interval (fst s)) (snd s);
            t1 = (fst s)\<lparr>isRunning := False, interval := None\<rparr>;
            totalTime = elapsedTime t1;
            e2 = notify (OnStop (taskId t1) totalTime) e1
        in (True, reset (t1, e2)))"

definition pause :: "int \<Rightarrow> timer \<times> env \<Rightarrow> bool \<times> timer \<times> env" where
  "pause ts s =
     (if \<not> isRunning (fst s) then (False, s)
      else
        let e1 = clearInterval (interval (fst s)) (snd s);
            t1 = (fst s)\<lparr>isRunning := False, interval := None\<rparr>;
            e2 = notify (OnPause (taskId t1) (elapsedTime t1)) e1
        in (True, t1, saveState ts t1 e2))"

definition resume :: "int \<Rightarrow> int \<Rightarrow> timer \<times> env \<Rightarrow> bool \<times> timer \<times> env" where
  "resume now ts s =
     (if isRunning (fst s) then (False, s) else start (taskId (fst s)) now ts s)"

definition resumeTimer :: "timer \<times> env \<Rightarrow> timer \<times> env" where
  "resumeTimer s =
     (if truthy_int (startTime (fst s)) \<and> isRunning (fst s)
      then (let (h, e1) = setInterval (snd s) in ((fst s)\<lparr>interval := Some h\<rparr>, e1))
      else s)"

text \<open>
  \<open>loadState\<close>: \<open>now1\<close> is the \<open>Date.now()\<close> that dates the snapshot, \<open>now2\<close> the one
  that recomputes the elapsed time. It touches the fields only.
\<close>

definition loadState :: "int \<Rightarrow> int \<Rightarrow> timer \<times> env \<Rightarrow> timer \<times> env" where
  "loadState now1 now2 s =
     (case LocalStorage_get (storage (snd s)) of
        None \<Rightarrow> s
      | Some st \<Rightarrow>
          if snap_isRunning st then
            (let timeSinceLastUpdate = now1 - snap_timestamp st in
             if timeSinceLastUpdate < 24 * 60 * 60 * 1000 then
               (let t1 = (fst s)\<lparr>startTime := snap_startTime st,
                                 elapsedTime := snap_elapsedTime st,
                                 isRunning := snap_isRunning st,
                                 taskId := snap_taskId st\<rparr>;
                    t2 = (if isRunning t1 \<and> truthy_int (startTime t1)
                          then t1\<lparr>elapsedTime := now2 - to_number (startTime t1)\<rparr>
                          else t1)
                in (t2, snd s))
             else s)
          else s)"

text \<open>
  The constructor: the five fields get their defaults, the callbacks are stored, and the
  timer is resumed if it is running. No other statement is in its body.
\<close>

definition constructor :: "env \<Rightarrow> timer \<times> env" where
  "constructor e =
     (let t = \<lparr>startTime = None, elapsedTime = 0, isRunning = False, interval = None,
               taskId = None\<rparr>
      in if isRunning t then resumeTimer (t, e) else (t, e))"

subsection \<open>The display formatter\<close>

text \<open>
  \<open>Number.prototype.toString\<close> on an integer: its decimal digits, after a minus sign
  when it is negative. \<open>padStart(2, '0')\<close> fills on the left up to two characters and
  leaves a longer string alone. \<open>%\<close> is the remainder that takes the sign of the
  dividend (the divisors here are the positive constants 3600 and 60), and
  \<open>Math.floor(a / b)\<close> on integers with positive \<open>b\<close> is \<open>div\<close>.
\<close>

definition digit_char :: "nat \<Rightarrow> char" where
  "digit_char d = char_of (48 + d)"

fun toString_nat :: "nat \<Rightarrow> string" where
  "toString_nat n =
     (if n < 10 then [digit_char n] else toString_nat (n div 10) @ [digit_char (n mod 10)])"

declare toString_nat.simps [simp del]

definition toString :: "int \<Rightarrow> string" where
  "toString i = (if i < 0 then CHR ''-'' # toString_nat (nat (- i)) else toString_nat (nat i))"

definition padStart :: "nat \<Rightarrow> char \<Rightarrow> string \<Rightarrow> string" where
  "padStart n c s = replicate (n - length s) c @ s"

definition js_rem :: "int \<Rightarrow> int \<Rightarrow> int" where
  "js_rem a b = (if a < 0 then - ((- a) mod b) else a mod b)"

definition formatTime :: "int \<Rightarrow> string" where
  "formatTime milliseconds =
     (let seconds = milliseconds div 1000;
          hours = seconds div 3600;
          minutes = js_rem seconds 3600 div 60;
          secs = js_rem seconds 60
      in padStart 2 (CHR ''0'') (toString hours) @ '':'' @
         padStart 2 (CHR ''0'') (toString minutes) @ '':'' @
         padStart 2 (CHR ''0'') (toString secs))"

text \<open>
  Reading a field of the display back: the number a string of decimal digits denotes,
  and whether a character is a decimal digit. Both serve to state what the formatter
  prints; the formatter does not use them.
\<close>

definition digit_value :: "char \<Rightarrow> nat" where
  "digit_value c = of_char c - 48"

definition decimal_value :: "string \<Rightarrow> nat" where
  "decimal_value s = foldl (\<lambda>a c. 10 * a + digit_value c) 0 s"

definition is_digit :: "char \<Rightarrow> bool" where
  "is_digit c = (48 \<le> (of_char c :: nat) \<and> (of_char c :: nat) \<le> 57)"

subsection \<open>Runs of the timer\<close>

text \<open>
  What can happen to a constructed timer: a call of one of its five public methods, or
  the browser running the interval callback, which it does only while an interval is
  scheduled. Each carries the clock readings the code makes.
\<close>

datatype action =
    Start "taskid option" int int
  | Tick int int
  | Pause int
  | Resume int int
  | Stop
  | Reset

definition fire :: "int \<Rightarrow> int \<Rightarrow> timer \<times> env \<Rightarrow> timer \<times> env" where
  "fire now ts s = (if scheduled (snd s) = [] then s else tick now ts s)"

fun step :: "action \<Rightarrow> timer \<times> env \<Rightarrow> timer \<times> env" where
  "step (Start tid now ts) s = snd (start tid now ts s)"
| "step (Tick now ts) s = fire now ts s"
| "step (Pause ts) s = snd (pause ts s)"
| "step (Resume now ts) s = snd (resume now ts s)"
| "step Stop s = snd (stop s)"
| "step Reset s = reset s"

fun run :: "action list \<Rightarrow> timer \<times> env \<Rightarrow> timer \<times> env" where
  "run [] s = s"
| "run (a # as) s = run as (step a s)"

text \<open>
  A run in which every \<open>start\<close> names a task and \<open>resume\<close> is called only while a
  task is retained.
\<close>

fun names_task :: "action \<Rightarrow> timer \<times> env \<Rightarrow> bool" where
  "names_task (Start tid now ts) s = (tid \<noteq> None)"
| "names_task (Resume now ts) s = (taskId (fst s) \<noteq> None)"
| "names_task (Tick now ts) s = True"
| "names_task (Pause ts) s = True"
| "names_task Stop s = True"
| "names_task Reset s = True"

fun names_tasks :: "action list \<Rightarrow> timer \<times> env \<Rightarrow> bool" where
  "names_tasks [] s = True"
| "names_tasks (a # as) s = (names_task a s \<and> names_tasks as (step a s))"

text \<open>
  How the fields and the scheduler hang together in a timer that is used through its
  methods: the handle field is set exactly while the timer runs, it is the one scheduled
  interval, handles are positive, a running timer has a start time, and a timer without
  a start time has no elapsed time.
\<close>

definition consistent :: "timer \<times> env \<Rightarrow> bool" where
  "consistent s =
     (isRunning (fst s) = (interval (fst s) \<noteq> None) \<and>
      scheduled (snd s) = (case interval (fst s) of None \<Rightarrow> [] | Some h \<Rightarrow> [h]) \<and>
      interval (fst s) \<noteq> Some 0 \<and>
      0 < next_handle (snd s) \<and>
      (startTime (fst s) \<noteq> None \<or> (\<not> isRunning (fst s) \<and> elapsedTime (fst s) = 0)))"

text \<open>The task is set exactly when the start time is.\<close>

definition tasked :: "timer \<times> env \<Rightarrow> bool" where
  "tasked s = ((taskId (fst s) \<noteq> None) = (startTime (fst s) \<noteq> None))"

text \<open>
  The page at load: the given store, nothing scheduled, no callback invoked yet, and a
  positive next handle, as browsers hand out.
\<close>

definition page_load :: "localStorage \<Rightarrow> nat \<Rightarrow> env" where
  "page_load ls n = \<lparr>storage = ls, scheduled = [], next_handle = Suc n, notified = []\<rparr>"

subsection \<open>Example inputs\<close>

text \<open>
  A working store with nothing under the key, and one holding a snapshot written by a
  timer that ran task \<open>T1\<close> from epoch 1000 and last saved at epoch 3000.
\<close>

definition empty_store :: localStorage where
  "empty_store = \<lparr>throws = False, item = None\<rparr>"

definition running_snapshot :: snapshot where
  "running_snapshot =
     \<lparr>snap_startTime = Some 1000, snap_elapsedTime = 2000, snap_isRunning = True,
      snap_taskId = Some ''T1'', snap_timestamp = 3000\<rparr>"

definition snapshot_store :: localStorage where
  "snapshot_store = \<lparr>throws = False, item = Some (Json running_snapshot)\<rparr>"

section \<open>Properties\<close>

subsection \<open>Auxiliary facts\<close>

lemmas timer_defs = start_def stop_def pause_def resume_def reset_def tick_def fire_def
  resumeTimer_def loadState_def constructor_def saveState_def clearState_def notify_def
  setInterval_def clearInterval_def LocalStorage_set_def LocalStorage_get_def
  LocalStorage_remove_def to_number_def truthy_int_def truthy_handle_def page_load_def
  empty_store_def snapshot_store_def running_snapshot_def

lemma saveState_keeps:
  "scheduled (saveState ts t e) = scheduled e"
  "next_handle (saveState ts t e) = next_handle e"
  "notified (saveState ts t e) = notified e"
  by (simp_all add: saveState_def)

lemma constructor_idle:
  "constructor e =
     (\<lparr>startTime = None, elapsedTime = 0, isRunning = False, interval = None, taskId = None\<rparr>, e)"
  by (simp add: constructor_def)

text \<open>Every method and the interval callback keep \<open>consistent\<close>.\<close>

lemma consistent_constructor: "consistent (constructor (page_load ls n))"
  by (simp add: consistent_def constructor_def page_load_def)

lemma consistent_start: "consistent s \<Longrightarrow> consistent (snd (start tid now ts s))"
  by (cases "interval (fst s)")
     (auto simp add: consistent_def start_def setInterval_def notify_def saveState_def Let_def)

lemma consistent_tick: "consistent s \<Longrightarrow> consistent (fire now ts s)"
  by (cases "interval (fst s)")
     (auto simp add: consistent_def fire_def tick_def notify_def saveState_def Let_def)

lemma consistent_pause: "consistent s \<Longrightarrow> consistent (snd (pause ts s))"
  by (cases "interval (fst s)")
     (auto simp add: consistent_def pause_def clearInterval_def notify_def saveState_def Let_def)

lemma consistent_reset: "consistent s \<Longrightarrow> consistent (reset s)"
  by (cases "interval (fst s)")
     (auto simp add: consistent_def reset_def truthy_handle_def clearInterval_def notify_def
        clearState_def Let_def)

lemma consistent_stop: "consistent s \<Longrightarrow> consistent (snd (stop s))"
  by (cases "interval (fst s)")
     (auto simp add: consistent_def stop_def reset_def truthy_handle_def clearInterval_def
        notify_def clearState_def Let_def)

lemma consistent_resume: "consistent s \<Longrightarrow> consistent (snd (resume now ts s))"
  by (simp add: resume_def consistent_start)

lemma consistent_step: "consistent s \<Longrightarrow> consistent (step a s)"
  by (cases a)
     (simp_all add: consistent_start consistent_tick consistent_pause consistent_resume
        consistent_stop consistent_reset)

lemma consistent_run: "consistent s \<Longrightarrow> consistent (run as s)"
  by (induction as arbitrary: s) (simp_all add: consistent_step)

text \<open>
  \<open>tasked\<close> is kept as long as each \<open>start\<close> names a task and \<open>resume\<close> finds one.
\<close>

lemma tasked_step: "consistent s \<Longrightarrow> tasked s \<Longrightarrow> names_task a s \<Longrightarrow> tasked (step a s)"
proof (cases a)
  case (Start tid now ts)
  then show "tasked s \<Longrightarrow> names_task a s \<Longrightarrow> tasked (step a s)"
    by (simp add: tasked_def start_def setInterval_def Let_def)
next
  case (Tick now ts)
  then show "tasked s \<Longrightarrow> tasked (step a s)"
    by (simp add: tasked_def fire_def tick_def Let_def)
next
  case (Pause ts)
  then show "tasked s \<Longrightarrow> tasked (step a s)"
    by (simp add: tasked_def pause_def Let_def)
next
  case (Resume now ts)
  then show "consistent s \<Longrightarrow> tasked s \<Longrightarrow> names_task a s \<Longrightarrow> tasked (step a s)"
    by (auto simp add: tasked_def consistent_def resume_def start_def setInterval_def Let_def)
next
  case Stop
  then show "tasked s \<Longrightarrow> tasked (step a s)"
    by (simp add: tasked_def stop_def reset_def Let_def)
next
  case Reset
  then show "tasked (step a s)"
    by (simp add: tasked_def reset_def Let_def)
qed

lemma tasked_run: "consistent s \<Longrightarrow> tasked s \<Longrightarrow> names_tasks as s \<Longrightarrow> tasked (run as s)"
  by (induction as arbitrary: s) (simp_all add: consistent_step tasked_step)

text \<open>
  While an interval is scheduled and the start time stays \<open>r - E\<close>, callbacks whose clock
  reads at least \<open>r\<close> never bring the elapsed time below \<open>E\<close>.
\<close>

lemma ticks_keep_floor:
  assumes "startTime (fst q) = Some (r - E)" and "scheduled (snd q) \<noteq> []"
    and "E \<le> elapsedTime (fst q)" and "\<forall>p \<in> set ns. r \<le> fst p"
  shows "E \<le> elapsedTime (fst (run (map (\<lambda>p. Tick (fst p) (snd p)) ns) q))"
  using assms
proof (induction ns arbitrary: q)
  case Nil
  then show ?case by simp
next
  case (Cons p ns)
  let ?q = "fire (fst p) (snd p) q"
  have "startTime (fst ?q) = Some (r - E)" "scheduled (snd ?q) \<noteq> []"
    "E \<le> elapsedTime (fst ?q)"
    using Cons.prems
    by (simp_all add: fire_def tick_def notify_def saveState_def to_number_def Let_def)
  with Cons.IH [of ?q] Cons.prems(4) show ?case by simp
qed

text \<open>
  What \<open>loadState\<close> does with a snapshot that is running, younger than 24 hours and has
  a start time other than \<open>0\<close>, on whatever timer it is called: it adopts the four
  fields and recomputes the elapsed time; it schedules nothing.
\<close>

lemma loadState_adopts_snapshot:
  assumes "LocalStorage_get (storage (snd s)) = Some st"
    and "snap_isRunning st" and "now1 - snap_timestamp st < 24 * 60 * 60 * 1000"
    and "snap_startTime st = Some T" and "T \<noteq> 0"
  shows "fst (loadState now1 now2 s) =
           (fst s)\<lparr>startTime := Some T, elapsedTime := now2 - T, isRunning := True,
                    taskId := snap_taskId st\<rparr>"
    and "snd (loadState now1 now2 s) = snd s"
  using assms by (simp_all add: loadState_def Let_def truthy_int_def to_number_def)

subsection \<open>Construction and restore\<close>

text \<open>
  C1. Restore-on-load at construction: with a snapshot in the store that is running and
  younger than 24 hours, the constructed timer should have adopted it, be running and
  show the elapsed time \<open>now - startTime\<close>. The constructor does not read the store: at
  epoch 5000, with the snapshot saved at epoch 3000 by a timer running since epoch 1000,
  the constructed timer is idle, with elapsed time \<open>0\<close> instead of \<open>4000\<close>, and nothing
  is scheduled.
\<close>

theorem constructor_restores_nothing:
  "constructor (page_load snapshot_store 0) =
     (\<lparr>startTime = None, elapsedTime = 0, isRunning = False, interval = None, taskId = None\<rparr>,
      page_load snapshot_store 0) \<and>
   scheduled (snd (constructor (page_load snapshot_store 0))) = [] \<and>
   LocalStorage_get (storage (page_load snapshot_store 0)) = Some running_snapshot \<and>
   snap_isRunning running_snapshot \<and>
   5000 - snap_timestamp running_snapshot < 24 * 60 * 60 * 1000"
  by (simp add: timer_defs)

text \<open>
  C8. Restore-on-load leaves the timer idle, adopts nothing and schedules nothing when
  the store throws, holds nothing under the key, holds text that does not parse, holds
  a snapshot that is not running, or holds one that is 24 hours old or older. This is
  so for the constructor and for \<open>loadState\<close> called on the constructed timer.
\<close>

theorem restore_stays_idle:
  assumes "throws (storage e) \<or> item (storage e) = None \<or> item (storage e) = Some Unparsable \<or>
           (\<exists>st. item (storage e) = Some (Json st) \<and>
                 (\<not> snap_isRunning st \<or> 24 * 60 * 60 * 1000 \<le> now1 - snap_timestamp st))"
  shows "constructor e =
           (\<lparr>startTime = None, elapsedTime = 0, isRunning = False, interval = None,
             taskId = None\<rparr>, e) \<and>
         loadState now1 now2 (constructor e) = constructor e"
  using assms
  by (auto simp add: constructor_def loadState_def LocalStorage_get_def Let_def
      split: option.splits stored.splits)

text \<open>
  The five cases, each at a store that meets it; the last snapshot is exactly 24 hours
  old.
\<close>

theorem restore_stays_idle_witness:
  "loadState 5000 5000 (constructor (page_load \<lparr>throws = True, item = Some (Json running_snapshot)\<rparr> 0)) =
     constructor (page_load \<lparr>throws = True, item = Some (Json running_snapshot)\<rparr> 0) \<and>
   loadState 5000 5000 (constructor (page_load empty_store 0)) =
     constructor (page_load empty_store 0) \<and>
   loadState 5000 5000 (constructor (page_load \<lparr>throws = False, item = Some Unparsable\<rparr> 0)) =
     constructor (page_load \<lparr>throws = False, item = Some Unparsable\<rparr> 0) \<and>
   loadState 5000 5000 (constructor (page_load
       \<lparr>throws = False, item = Some (Json (running_snapshot\<lparr>snap_isRunning := False\<rparr>))\<rparr> 0)) =
     constructor (page_load
       \<lparr>throws = False, item = Some (Json (running_snapshot\<lparr>snap_isRunning := False\<rparr>))\<rparr> 0) \<and>
   loadState 86403000 86403000 (constructor (page_load snapshot_store 0)) =
     (\<lparr>startTime = None, elapsedTime = 0, isRunning = False, interval = None, taskId = None\<rparr>,
      page_load snapshot_store 0)"
proof -
  have a: "throws (storage (page_load \<lparr>throws = True, item = Some (Json running_snapshot)\<rparr> 0))"
    by (simp add: page_load_def)
  have b: "item (storage (page_load empty_store 0)) = None"
    by (simp add: page_load_def empty_store_def)
  have c: "item (storage (page_load \<lparr>throws = False, item = Some Unparsable\<rparr> 0)) = Some Unparsable"
    by (simp add: page_load_def)
  have d: "\<exists>st. item (storage (page_load
       \<lparr>throws = False, item = Some (Json (running_snapshot\<lparr>snap_isRunning := False\<rparr>))\<rparr> 0)) =
         Some (Json st) \<and>
       (\<not> snap_isRunning st \<or> 24 * 60 * 60 * 1000 \<le> 5000 - snap_timestamp st)"
    by (simp add: page_load_def)
  have e: "\<exists>st. item (storage (page_load snapshot_store 0)) = Some (Json st) \<and>
       (\<not> snap_isRunning st \<or> 24 * 60 * 60 * 1000 \<le> 86403000 - snap_timestamp st)"
    by (simp add: page_load_def snapshot_store_def running_snapshot_def)
  show ?thesis
    using restore_stays_idle [of "page_load \<lparr>throws = True, item = Some (Json running_snapshot)\<rparr> 0" 5000 5000]
      restore_stays_idle [of "page_load empty_store 0" 5000 5000]
      restore_stays_idle [of "page_load \<lparr>throws = False, item = Some Unparsable\<rparr> 0" 5000 5000]
      restore_stays_idle [of "page_load
       \<lparr>throws = False, item = Some (Json (running_snapshot\<lparr>snap_isRunning := False\<rparr>))\<rparr> 0" 5000 5000]
      restore_stays_idle [of "page_load snapshot_store 0" 86403000 86403000]
      a b c d e
    by metis
qed

subsection \<open>Rejected calls\<close>

text \<open>
  C4. \<open>start\<close> and \<open>resume\<close> on a running timer, \<open>pause\<close> and \<open>stop\<close> on a timer that
  is not running return \<open>false\<close> and leave the timer and the environment as they were:
  no field changes, no callback is invoked, nothing is scheduled or stored. The methods
  have no throwing path.
\<close>

theorem rejected_calls_change_nothing:
  "(isRunning (fst s) \<longrightarrow> start tid now ts s = (False, s) \<and> resume now ts s = (False, s)) \<and>
   (\<not> isRunning (fst s) \<longrightarrow> pause ts s = (False, s) \<and> stop s = (False, s))"
  by (simp add: start_def resume_def pause_def stop_def)

theorem rejected_calls_change_nothing_witness:
  "isRunning (fst (step (Start (Some ''T1'') 1000 1000) (constructor (page_load empty_store 0)))) \<and>
   start (Some ''T2'') 2000 2000
       (step (Start (Some ''T1'') 1000 1000) (constructor (page_load empty_store 0)))
     = (False, step (Start (Some ''T1'') 1000 1000) (constructor (page_load empty_store 0))) \<and>
   resume 2000 2000
       (step (Start (Some ''T1'') 1000 1000) (constructor (page_load empty_store 0)))
     = (False, step (Start (Some ''T1'') 1000 1000) (constructor (page_load empty_store 0))) \<and>
   \<not> isRunning (fst (constructor (page_load empty_store 0))) \<and>
   pause 2000 (constructor (page_load empty_store 0)) =
     (False, constructor (page_load empty_store 0)) \<and>
   stop (constructor (page_load empty_store 0)) =
     (False, constructor (page_load empty_store 0))"
proof -
  have r: "isRunning (fst (step (Start (Some ''T1'') 1000 1000)
                             (constructor (page_load empty_store 0))))"
    by (simp add: timer_defs)
  have i: "\<not> isRunning (fst (constructor (page_load empty_store 0)))"
    by (simp add: timer_defs)
  show ?thesis
    using r i
      rejected_calls_change_nothing
        [of "step (Start (Some ''T1'') 1000 1000) (constructor (page_load empty_store 0))"
            "Some ''T2''" 2000 2000]
      rejected_calls_change_nothing
        [of "constructor (page_load empty_store 0)" "Some ''T2''" 2000 2000]
    by blast
qed

text \<open>
  C10. \<open>resume\<close> on an idle timer (not running, no elapsed time, no task) is accepted:
  it returns \<open>true\<close> and the timer runs without a task, with a fresh interval scheduled,
  the start callback invoked with \<open>null\<close>, and the elapsed time counted from the moment
  of the call.
\<close>

theorem resume_on_idle_starts:
  assumes "\<not> isRunning (fst s)" and "elapsedTime (fst s) = 0" and "taskId (fst s) = None"
  shows "fst (resume now ts s) = True \<and>
         isRunning (fst (snd (resume now ts s))) \<and>
         taskId (fst (snd (resume now ts s))) = None \<and>
         startTime (fst (snd (resume now ts s))) = Some now \<and>
         elapsedTime (fst (snd (resume now ts s))) = 0 \<and>
         interval (fst (snd (resume now ts s))) = Some (next_handle (snd s)) \<and>
         scheduled (snd (snd (resume now ts s))) = next_handle (snd s) # scheduled (snd s) \<and>
         notified (snd (snd (resume now ts s))) = notified (snd s) @ [OnStart None] \<and>
         elapsedTime (fst (fire now' ts' (snd (resume now ts s)))) = now' - now"
  using assms by (simp add: timer_defs Let_def split: prod.splits)

theorem resume_on_idle_starts_witness:
  "\<not> isRunning (fst (constructor (page_load empty_store 0))) \<and>
   elapsedTime (fst (constructor (page_load empty_store 0))) = 0 \<and>
   taskId (fst (constructor (page_load empty_store 0))) = None \<and>
   fst (resume 5000 5000 (constructor (page_load empty_store 0))) = True \<and>
   fst (snd (resume 5000 5000 (constructor (page_load empty_store 0)))) =
     \<lparr>startTime = Some 5000, elapsedTime = 0, isRunning = True, interval = Some 1,
      taskId = None\<rparr> \<and>
   elapsedTime (fst (fire 7000 7000
     (snd (resume 5000 5000 (constructor (page_load empty_store 0)))))) = 2000"
proof -
  have h: "\<not> isRunning (fst (constructor (page_load empty_store 0)))"
    "elapsedTime (fst (constructor (page_load empty_store 0))) = 0"
    "taskId (fst (constructor (page_load empty_store 0))) = None"
    by (simp_all add: constructor_def)
  have f: "fst (snd (resume 5000 5000 (constructor (page_load empty_store 0)))) =
     \<lparr>startTime = Some 5000, elapsedTime = 0, isRunning = True, interval = Some 1,
      taskId = None\<rparr>"
    by (simp add: timer_defs)
  show ?thesis
    using h f resume_on_idle_starts [OF h, of 5000 5000 7000 7000] by simp
qed

subsection \<open>Stop\<close>

text \<open>
  C3, as the code has it. \<open>stop\<close> on a running timer returns \<open>true\<close> and leaves no
  elapsed time, no task, no start time and no interval, the timer not running, and no
  snapshot to read: the item is removed, unless the store throws, and then \<open>get\<close> finds
  nothing either. \<open>stop\<close> on a timer that is not running returns \<open>false\<close> and changes
  nothing.
\<close>

theorem stop_while_running_resets:
  "(isRunning (fst s) \<longrightarrow>
      fst (stop s) = True \<and>
      elapsedTime (fst (snd (stop s))) = 0 \<and>
      taskId (fst (snd (stop s))) = None \<and>
      isRunning (fst (snd (stop s))) = False \<and>
      startTime (fst (snd (stop s))) = None \<and>
      interval (fst (snd (stop s))) = None \<and>
      LocalStorage_get (storage (snd (snd (stop s)))) = None \<and>
      (throws (storage (snd s)) \<or> item (storage (snd (snd (stop s)))) = None)) \<and>
   (\<not> isRunning (fst s) \<longrightarrow> stop s = (False, s))"
  by (simp add: timer_defs Let_def split: prod.splits option.splits)

theorem stop_while_running_resets_witness:
  "isRunning (fst (run [Start (Some ''T1'') 1000 1000, Tick 4000 4000]
                        (constructor (page_load empty_store 0)))) \<and>
   snd (stop (run [Start (Some ''T1'') 1000 1000, Tick 4000 4000]
                  (constructor (page_load empty_store 0)))) =
     (\<lparr>startTime = None, elapsedTime = 0, isRunning = False, interval = None, taskId = None\<rparr>,
      \<lparr>storage = empty_store, scheduled = [], next_handle = 2,
       notified = [OnStart (Some ''T1''), OnTick 3000, OnStop (Some ''T1'') 3000, OnTick 0]\<rparr>) \<and>
   \<not> isRunning (fst (constructor (page_load empty_store 0))) \<and>
   stop (constructor (page_load empty_store 0)) =
     (False, constructor (page_load empty_store 0))"
proof -
  have r: "isRunning (fst (run [Start (Some ''T1'') 1000 1000, Tick 4000 4000]
                                (constructor (page_load empty_store 0))))"
    by (simp add: timer_defs)
  have v: "snd (stop (run [Start (Some ''T1'') 1000 1000, Tick 4000 4000]
                          (constructor (page_load empty_store 0)))) =
     (\<lparr>startTime = None, elapsedTime = 0, isRunning = False, interval = None, taskId = None\<rparr>,
      \<lparr>storage = empty_store, scheduled = [], next_handle = 2,
       notified = [OnStart (Some ''T1''), OnTick 3000, OnStop (Some ''T1'') 3000, OnTick 0]\<rparr>)"
    by (simp add: timer_defs)
  have i: "\<not> isRunning (fst (constructor (page_load empty_store 0)))"
    by (simp add: timer_defs)
  show ?thesis
    using r v i
      stop_while_running_resets
        [of "run [Start (Some ''T1'') 1000 1000, Tick 4000 4000]
                 (constructor (page_load empty_store 0))"]
      stop_while_running_resets [of "constructor (page_load empty_store 0)"]
    by blast
qed

text \<open>
  C3 as stated, for a call from any state, fails on a paused timer: started at epoch
  1000, ticked at 4000, paused at 4500, then stopped, it still has its elapsed time,
  its task and its snapshot.
\<close>

theorem stop_when_paused_counterexample:
  "\<not> (elapsedTime (fst (snd (stop (run [Start (Some ''T1'') 1000 1000, Tick 4000 4000, Pause 4500]
          (constructor (page_load empty_store 0)))))) = 0 \<and>
       taskId (fst (snd (stop (run [Start (Some ''T1'') 1000 1000, Tick 4000 4000, Pause 4500]
          (constructor (page_load empty_store 0)))))) = None \<and>
       LocalStorage_get (storage (snd (snd (stop
          (run [Start (Some ''T1'') 1000 1000, Tick 4000 4000, Pause 4500]
          (constructor (page_load empty_store 0))))))) = None)"
  by (simp add: timer_defs)

subsection \<open>Pause and resume\<close>

text \<open>
  C2, as the code has it. Started at epoch 1000 with a callback at epoch 4000, the tick
  callback receives 3000. \<open>pause\<close> at epoch 4500 does not recompute the elapsed time
  (it reads the clock only to date the snapshot): the pause callback receives the
  elapsed time of the last callback, 3000, and the timer is not running. \<open>resume\<close> at epoch 5000 sets the start time to \<open>5000 - 3000\<close>, and a callback
  at epoch 7000 receives 5000. This holds for any task, store and first handle.
\<close>

theorem scenario_as_the_code_runs:
  "notified (snd (run [Start tid 1000 1000, Tick 4000 4000] (constructor (page_load ls n)))) =
     [OnStart tid, OnTick 3000] \<and>
   notified (snd (run [Start tid 1000 1000, Tick 4000 4000, Pause 4500]
      (constructor (page_load ls n)))) =
     [OnStart tid, OnTick 3000, OnPause tid 3000] \<and>
   isRunning (fst (run [Start tid 1000 1000, Tick 4000 4000, Pause 4500]
      (constructor (page_load ls n)))) = False \<and>
   startTime (fst (run [Start tid 1000 1000, Tick 4000 4000, Pause 4500, Resume 5000 5000]
      (constructor (page_load ls n)))) = Some (5000 - 3000) \<and>
   notified (snd (run [Start tid 1000 1000, Tick 4000 4000, Pause 4500, Resume 5000 5000,
                       Tick 7000 7000]
      (constructor (page_load ls n)))) =
     [OnStart tid, OnTick 3000, OnPause tid 3000, OnStart tid, OnTick 5000]"
  by (simp add: constructor_def page_load_def start_def fire_def tick_def pause_def resume_def
      setInterval_def clearInterval_def notify_def to_number_def saveState_keeps Let_def)

text \<open>
  C2 as stated fails at the pause: the pause callback does not receive 3500, and the
  start time after the resume is not 1500.
\<close>

theorem scenario_pause_counterexample:
  "\<not> (notified (snd (run [Start (Some ''T1'') 1000 1000, Tick 4000 4000, Pause 4500]
          (constructor (page_load empty_store 0)))) =
        [OnStart (Some ''T1''), OnTick 3000, OnPause (Some ''T1'') 3500]) \<and>
   \<not> (startTime (fst (run [Start (Some ''T1'') 1000 1000, Tick 4000 4000, Pause 4500,
                            Resume 5000 5000]
          (constructor (page_load empty_store 0)))) = Some 1500)"
  by (simp add: timer_defs)

text \<open>
  C5. A running timer is paused with elapsed time \<open>E\<close> and resumed at clock reading
  \<open>r\<close>: the start time becomes \<open>r - E\<close>, and after any number of interval callbacks
  whose clock reads \<open>r\<close> or later the elapsed time is at least \<open>E\<close>.
\<close>

theorem resume_keeps_elapsed_floor:
  assumes "isRunning (fst s)" and "\<forall>p \<in> set ns. r \<le> fst p"
  shows "startTime (fst (snd (resume r tr (snd (pause tp s))))) =
           Some (r - elapsedTime (fst (snd (pause tp s)))) \<and>
         elapsedTime (fst (snd (pause tp s))) \<le>
           elapsedTime (fst (run (map (\<lambda>p. Tick (fst p) (snd p)) ns)
                                  (snd (resume r tr (snd (pause tp s))))))"
proof -
  let ?E = "elapsedTime (fst (snd (pause tp s)))"
  let ?q = "snd (resume r tr (snd (pause tp s)))"
  have q: "startTime (fst ?q) = Some (r - ?E)" "scheduled (snd ?q) \<noteq> []"
    "?E \<le> elapsedTime (fst ?q)"
    using assms(1)
    by (simp_all add: resume_def start_def pause_def setInterval_def notify_def saveState_def
        Let_def)
  from ticks_keep_floor [OF q assms(2)] q(1) show ?thesis by simp
qed

theorem resume_keeps_elapsed_floor_witness:
  "isRunning (fst (run [Start (Some ''T1'') 1000 1000, Tick 4000 4000]
                        (constructor (page_load empty_store 0)))) \<and>
   elapsedTime (fst (snd (pause 4500 (run [Start (Some ''T1'') 1000 1000, Tick 4000 4000]
                        (constructor (page_load empty_store 0)))))) = 3000 \<and>
   3000 \<le> elapsedTime (fst (run (map (\<lambda>p. Tick (fst p) (snd p)) [(6000, 6000), (7000, 7000)])
     (snd (resume 5000 5000 (snd (pause 4500
        (run [Start (Some ''T1'') 1000 1000, Tick 4000 4000]
             (constructor (page_load empty_store 0))))))))) \<and>
   elapsedTime (fst (run (map (\<lambda>p. Tick (fst p) (snd p)) [(6000, 6000), (7000, 7000)])
     (snd (resume 5000 5000 (snd (pause 4500
        (run [Start (Some ''T1'') 1000 1000, Tick 4000 4000]
             (constructor (page_load empty_store 0))))))))) = 5000"
proof -
  let ?s = "run [Start (Some ''T1'') 1000 1000, Tick 4000 4000]
                (constructor (page_load empty_store 0))"
  have r: "isRunning (fst ?s)"
    by (simp add: timer_defs)
  have n: "\<forall>p \<in> set [(6000, 6000), (7000, 7000)]. (5000::int) \<le> fst p"
    by simp
  have E: "elapsedTime (fst (snd (pause 4500 ?s))) = 3000"
    by (simp add: timer_defs)
  have v: "elapsedTime (fst (run (map (\<lambda>p. Tick (fst p) (snd p)) [(6000, 6000), (7000, 7000)])
     (snd (resume 5000 5000 (snd (pause 4500 ?s)))))) = 5000"
    by (simp add: timer_defs)
  show ?thesis
    using r E v resume_keeps_elapsed_floor [OF r n, of 5000 4500] by simp
qed

subsection \<open>Invariants over runs\<close>

text \<open>
  C6, as the code has it. After any run from the constructed timer in which every
  \<open>start\<close> names a task and \<open>resume\<close> is called only while a task is retained, the
  task is set exactly when the timer runs or is paused with its start time retained;
  and when the task is not set, the start time is not set either, the elapsed time is
  \<open>0\<close> and the timer is not running.
\<close>

theorem taskId_set_unless_idle:
  assumes "names_tasks as (constructor (page_load ls n))"
  shows "(taskId (fst (run as (constructor (page_load ls n)))) \<noteq> None) =
           (isRunning (fst (run as (constructor (page_load ls n)))) \<or>
            startTime (fst (run as (constructor (page_load ls n)))) \<noteq> None) \<and>
         (taskId (fst (run as (constructor (page_load ls n)))) \<noteq> None \<or>
            (startTime (fst (run as (constructor (page_load ls n)))) = None \<and>
             elapsedTime (fst (run as (constructor (page_load ls n)))) = 0 \<and>
             \<not> isRunning (fst (run as (constructor (page_load ls n))))))"
proof -
  let ?s = "run as (constructor (page_load ls n))"
  have c: "consistent ?s"
    by (rule consistent_run [OF consistent_constructor])
  have "tasked (constructor (page_load ls n))"
    by (simp add: tasked_def constructor_def)
  with assms have t: "tasked ?s"
    by (simp add: tasked_run consistent_constructor)
  from c t show ?thesis
    unfolding consistent_def tasked_def by blast
qed

text \<open>A run that ends paused with its task, and one that ends idle after \<open>stop\<close>.\<close>

theorem taskId_set_unless_idle_witness:
  "names_tasks [Start (Some ''T1'') 1000 1000, Tick 4000 4000, Pause 4500]
     (constructor (page_load empty_store 0)) \<and>
   fst (run [Start (Some ''T1'') 1000 1000, Tick 4000 4000, Pause 4500]
     (constructor (page_load empty_store 0))) =
     \<lparr>startTime = Some 1000, elapsedTime = 3000, isRunning = False, interval = None,
      taskId = Some ''T1''\<rparr> \<and>
   names_tasks [Start (Some ''T1'') 1000 1000, Pause 4500, Resume 5000 5000, Stop]
     (constructor (page_load empty_store 0)) \<and>
   fst (run [Start (Some ''T1'') 1000 1000, Pause 4500, Resume 5000 5000, Stop]
     (constructor (page_load empty_store 0))) =
     \<lparr>startTime = None, elapsedTime = 0, isRunning = False, interval = None, taskId = None\<rparr>"
proof -
  have a: "names_tasks [Start (Some ''T1'') 1000 1000, Tick 4000 4000, Pause 4500]
     (constructor (page_load empty_store 0))"
    by (simp add: timer_defs)
  have b: "names_tasks [Start (Some ''T1'') 1000 1000, Pause 4500, Resume 5000 5000, Stop]
     (constructor (page_load empty_store 0))"
    by (simp add: timer_defs)
  have u: "fst (run [Start (Some ''T1'') 1000 1000, Tick 4000 4000, Pause 4500]
     (constructor (page_load empty_store 0))) =
     \<lparr>startTime = Some 1000, elapsedTime = 3000, isRunning = False, interval = None,
      taskId = Some ''T1''\<rparr>"
    by (simp add: timer_defs)
  have v: "fst (run [Start (Some ''T1'') 1000 1000, Pause 4500, Resume 5000 5000, Stop]
     (constructor (page_load empty_store 0))) =
     \<lparr>startTime = None, elapsedTime = 0, isRunning = False, interval = None, taskId = None\<rparr>"
    by (simp add: timer_defs)
  show ?thesis
    using a b u v taskId_set_unless_idle [OF a] taskId_set_unless_idle [OF b] by simp
qed

text \<open>
  C6 as stated fails: \<open>start\<close> takes \<open>null\<close> for the task (it is the default of its
  parameter), and the timer then runs without a task.
\<close>

theorem start_without_task_counterexample:
  "\<not> (isRunning (fst (run [Start None 1000 1000] (constructor (page_load empty_store 0)))) \<longrightarrow>
       taskId (fst (run [Start None 1000 1000] (constructor (page_load empty_store 0)))) \<noteq> None)"
  by (simp add: timer_defs)

text \<open>
  C7. The restore on load is what the constructor does, whatever the store holds. After
  construction on any store and any run of \<open>start\<close>, \<open>pause\<close>, \<open>resume\<close>, \<open>stop\<close>,
  \<open>reset\<close> and interval callbacks, the timer is running exactly when it holds an
  interval handle, exactly when an interval is scheduled, and the scheduled interval is
  the one it holds.
\<close>

theorem running_iff_interval_held:
  "isRunning (fst (run as (constructor (page_load ls n)))) =
     (interval (fst (run as (constructor (page_load ls n)))) \<noteq> None) \<and>
   isRunning (fst (run as (constructor (page_load ls n)))) =
     (scheduled (snd (run as (constructor (page_load ls n)))) \<noteq> []) \<and>
   set (scheduled (snd (run as (constructor (page_load ls n))))) =
     set_option (interval (fst (run as (constructor (page_load ls n)))))"
proof -
  have "consistent (run as (constructor (page_load ls n)))"
    by (rule consistent_run [OF consistent_constructor])
  then show ?thesis
    by (cases "interval (fst (run as (constructor (page_load ls n))))")
       (simp_all add: consistent_def)
qed

subsection \<open>The display format\<close>

text \<open>The decimal digits of a number read back as that number, and are digits.\<close>

lemma digit_value_digit_char: "d < 10 \<Longrightarrow> digit_value (digit_char d) = d"
  by (simp add: digit_value_def digit_char_def)

lemma is_digit_digit_char: "d < 10 \<Longrightarrow> is_digit (digit_char d)"
  by (simp add: is_digit_def digit_char_def)

lemma decimal_value_snoc: "decimal_value (s @ [c]) = 10 * decimal_value s + digit_value c"
  by (simp add: decimal_value_def)

lemma decimal_value_toString_nat: "decimal_value (toString_nat n) = n"
proof (induction n rule: toString_nat.induct)
  case (1 n)
  show ?case
  proof (cases "n < 10")
    case True
    then show ?thesis
      by (simp add: toString_nat.simps [of n] decimal_value_def digit_value_digit_char)
  next
    case False
    with "1.IH" show ?thesis
      by (simp add: toString_nat.simps [of n] decimal_value_snoc digit_value_digit_char)
  qed
qed

lemma digits_toString_nat: "list_all is_digit (toString_nat n)"
proof (induction n rule: toString_nat.induct)
  case (1 n)
  show ?case
  proof (cases "n < 10")
    case True
    then show ?thesis
      by (simp add: toString_nat.simps [of n] is_digit_digit_char)
  next
    case False
    with "1.IH" show ?thesis
      by (simp add: toString_nat.simps [of n] is_digit_digit_char)
  qed
qed

lemma length_toString_nat: "0 < length (toString_nat n)"
  by (simp add: toString_nat.simps [of n])

lemma length_toString_nat_small:
  assumes "n < 100"
  shows "length (toString_nat n) \<le> 2"
proof (cases "n < 10")
  case True
  then show ?thesis by (simp add: toString_nat.simps [of n])
next
  case False
  from assms have "n div 10 < 10" by simp
  then have "length (toString_nat (n div 10)) = 1"
    by (simp add: toString_nat.simps [of "n div 10"])
  with False show ?thesis by (simp add: toString_nat.simps [of n])
qed

lemma digits_zeros: "list_all is_digit (replicate k (CHR ''0''))"
  by (induction k) (simp_all add: is_digit_def)

lemma decimal_value_zeros: "decimal_value (replicate k (CHR ''0'') @ s) = decimal_value s"
proof (induction k)
  case 0
  show ?case by simp
next
  case (Suc k)
  then show ?case by (simp add: decimal_value_def digit_value_def)
qed

lemma padStart_toString_nat:
  "2 \<le> length (padStart 2 (CHR ''0'') (toString_nat n))"
  "list_all is_digit (padStart 2 (CHR ''0'') (toString_nat n))"
  "decimal_value (padStart 2 (CHR ''0'') (toString_nat n)) = n"
  "n < 100 \<Longrightarrow> length (padStart 2 (CHR ''0'') (toString_nat n)) = 2"
proof -
  show "2 \<le> length (padStart 2 (CHR ''0'') (toString_nat n))"
    by (simp add: padStart_def)
  show "list_all is_digit (padStart 2 (CHR ''0'') (toString_nat n))"
    by (simp add: padStart_def digits_toString_nat digits_zeros)
  show "decimal_value (padStart 2 (CHR ''0'') (toString_nat n)) = n"
    by (simp add: padStart_def decimal_value_zeros decimal_value_toString_nat)
  show "n < 100 \<Longrightarrow> length (padStart 2 (CHR ''0'') (toString_nat n)) = 2"
    using length_toString_nat_small [of n] by (simp add: padStart_def)
qed

text \<open>Hours, minutes and seconds of a count of milliseconds.\<close>

lemma div_div_int: "(a::int) div 1000 div 3600 = a div 3600000"
proof -
  have "a div (1000 * 3600) = a div 1000 div 3600"
    by (rule zdiv_zmult2_eq) simp
  then show ?thesis by simp
qed

lemma div_div_int2: "(a::int) div 1000 div 60 = a div 60000"
proof -
  have "a div (1000 * 60) = a div 1000 div 60"
    by (rule zdiv_zmult2_eq) simp
  then show ?thesis by simp
qed

lemma mod_div_int: "(a::int) mod 3600 div 60 = a div 60 mod 60"
proof -
  have "a mod (60 * 60) = 60 * (a div 60 mod 60) + a mod 60"
    by (rule zmod_zmult2_eq) simp
  then show ?thesis by simp
qed

text \<open>On a count that is not negative no sign is printed and \<open>%\<close> is \<open>mod\<close>.\<close>

lemma formatTime_nonneg:
  assumes "0 \<le> ms"
  shows "formatTime ms =
           padStart 2 (CHR ''0'') (toString_nat (nat (ms div 3600000))) @ '':'' @
           padStart 2 (CHR ''0'') (toString_nat (nat (ms div 60000 mod 60))) @ '':'' @
           padStart 2 (CHR ''0'') (toString_nat (nat (ms div 1000 mod 60)))"
proof -
  have s: "\<not> ms div 1000 < 0"
    using assms by (simp add: pos_imp_zdiv_neg_iff)
  have h: "ms div 1000 div 3600 = ms div 3600000"
    by (rule div_div_int)
  have m: "ms div 1000 mod 3600 div 60 = ms div 60000 mod 60"
    by (simp only: mod_div_int div_div_int2)
  have j1: "js_rem (ms div 1000) 3600 = ms div 1000 mod 3600"
    using s by (simp only: js_rem_def if_False)
  have j2: "js_rem (ms div 1000) 60 = ms div 1000 mod 60"
    using s by (simp only: js_rem_def if_False)
  have "\<not> ms div 3600000 < 0"
    using assms by (simp add: pos_imp_zdiv_neg_iff)
  then have t1: "toString (ms div 3600000) = toString_nat (nat (ms div 3600000))"
    by (simp only: toString_def if_False)
  have "\<not> ms div 60000 mod 60 < 0"
    by simp
  then have t2: "toString (ms div 60000 mod 60) = toString_nat (nat (ms div 60000 mod 60))"
    by (simp only: toString_def if_False)
  have "\<not> ms div 1000 mod 60 < 0"
    by simp
  then have t3: "toString (ms div 1000 mod 60) = toString_nat (nat (ms div 1000 mod 60))"
    by (simp only: toString_def if_False)
  show ?thesis
    by (simp only: formatTime_def Let_def j1 j2 h m t1 t2 t3)
qed

text \<open>
  C9. For every count of milliseconds that is not negative, the formatter prints three
  fields of decimal digits separated by colons: the minutes and the seconds on exactly
  two digits, the hours on two digits or more, where the hours field reads back as the
  whole number of hours (it does not wrap at a day and grows beyond two digits), the
  minutes field as the minutes within the hour and the seconds field as the seconds
  within the minute. \<open>formatTime(3661000)\<close> is \<open>01:01:01\<close>.
\<close>

theorem formatTime_zero_padded:
  "(0 \<le> ms \<longrightarrow>
      (\<exists>hh mm ss. formatTime ms = hh @ '':'' @ mm @ '':'' @ ss \<and>
         2 \<le> length hh \<and> length mm = 2 \<and> length ss = 2 \<and>
         list_all is_digit hh \<and> list_all is_digit mm \<and> list_all is_digit ss \<and>
         decimal_value hh = nat (ms div 3600000) \<and>
         decimal_value mm = nat (ms div 60000 mod 60) \<and>
         decimal_value ss = nat (ms div 1000 mod 60))) \<and>
   formatTime 3661000 = ''01:01:01''"
proof (intro conjI impI)
  assume ms: "0 \<le> ms"
  have m: "nat (ms div 60000 mod 60) < 100" by simp
  have s: "nat (ms div 1000 mod 60) < 100" by simp
  show "\<exists>hh mm ss. formatTime ms = hh @ '':'' @ mm @ '':'' @ ss \<and>
         2 \<le> length hh \<and> length mm = 2 \<and> length ss = 2 \<and>
         list_all is_digit hh \<and> list_all is_digit mm \<and> list_all is_digit ss \<and>
         decimal_value hh = nat (ms div 3600000) \<and>
         decimal_value mm = nat (ms div 60000 mod 60) \<and>
         decimal_value ss = nat (ms div 1000 mod 60)"
    using formatTime_nonneg [OF ms] padStart_toString_nat(1-3) padStart_toString_nat(4) [OF m]
      padStart_toString_nat(4) [OF s]
    by blast
next
  show "formatTime 3661000 = ''01:01:01''"
    by code_simp
qed


text \<open>One hundred hours print on three digits.\<close>

theorem formatTime_zero_padded_witness:
  "(0::int) \<le> 360000000 \<and>
   (\<exists>hh mm ss. formatTime 360000000 = hh @ '':'' @ mm @ '':'' @ ss \<and>
         2 \<le> length hh \<and> length mm = 2 \<and> length ss = 2 \<and>
         list_all is_digit hh \<and> list_all is_digit mm \<and> list_all is_digit ss \<and>
         decimal_value hh = 100 \<and> decimal_value mm = 0 \<and> decimal_value ss = 0) \<and>
   formatTime 360000000 = ''100:00:00'' \<and>
   formatTime 3661000 = ''01:01:01''"
proof -
  have v: "formatTime 360000000 = ''100:00:00''"
    by code_simp
  show ?thesis
    using v formatTime_zero_padded [of 360000000] by simp
qed

end
